theory Spec2Isabelle
  imports Complex_Main "HOL-Library.Word" "HOL-Library.Sublist"
begin

section \<open>JavaScript values used by the services\<close>

text \<open>
  A JavaScript string is a sequence of UTF-16 code units. The string literals of the
  sources that the model needs are ASCII; \<open>lit\<close> turns such a literal into code units.
\<close>

type_synonym jsstring = "16 word list"

definition lit :: "string \<Rightarrow> jsstring" where
  "lit s = map of_char s"

text \<open>
  \<open>String.prototype.trim\<close> removes the ECMAScript white space and line terminator code
  points from both ends: TAB, LF, VT, FF, CR, SP, NBSP, the Unicode space separators,
  LS, PS and the byte order mark. All of them are single code units.
\<close>

definition js_whitespace :: "16 word \<Rightarrow> bool" where
  "js_whitespace c \<longleftrightarrow>
     c \<in> {0x0009, 0x000A, 0x000B, 0x000C, 0x000D, 0x0020, 0x00A0, 0x1680,
          0x2028, 0x2029, 0x202F, 0x205F, 0x3000, 0xFEFF}
     \<or> (0x2000 \<le> c \<and> c \<le> 0x200A)"

definition trim :: "jsstring \<Rightarrow> jsstring" where
  "trim s = rev (dropWhile js_whitespace (rev (dropWhile js_whitespace s)))"

text \<open>\<open>s.includes(p)\<close>: the pattern occurs at some position of \<open>s\<close>.\<close>

fun js_includes :: "jsstring \<Rightarrow> jsstring \<Rightarrow> bool" where
  "js_includes [] p = (p = [])"
| "js_includes (c # s) p = (prefix p (c # s) \<or> js_includes s p)"

text \<open>
  A thrown value. \<open>NewError m\<close> is the object made by \<open>new Error(m)\<close> in this code.
  \<open>Thrown m t\<close> is a value thrown by a call into the hosted services or the hosting
  page: \<open>m\<close> is its \<open>message\<close> property (\<open>None\<close> when the property is undefined) and
  \<open>t\<close> stands for everything else that identifies the value.
\<close>

datatype js_error = NewError jsstring | Thrown "jsstring option" nat

fun err_message :: "js_error \<Rightarrow> jsstring option" where
  "err_message (NewError m) = Some m"
| "err_message (Thrown m t) = m"

section \<open>The hosted services\<close>

text \<open>The response of the text model: \<open>response.text\<close> is a string or undefined.\<close>

record content_response =
  text_field :: "jsstring option"

text \<open>
  A video operation as the code reads it: \<open>operation.done\<close> and the optional chain
  \<open>operation.response?.generatedVideos?.[0]?.video?.uri\<close>.
\<close>

record video =
  uri :: "jsstring option"

record generated_video =
  video :: "video option"

record videos_response =
  generatedVideos :: "generated_video list option"

record operation =
  op_done :: "bool option"
  op_response :: "videos_response option"

text \<open>
  The world outside the two service functions, as answers to their calls.
  The fixed parts of each request (model name, sampling parameters, system instruction,
  output configuration) are constants of the source, so an answer depends on the
  arguments that vary. \<open>getVideosOperation k\<close> is the answer to the \<open>k\<close>-th status
  request of a run (the handle it sends is the state fetched before).
  \<open>random_index k\<close> is the value of \<open>Math.floor(Math.random() * messages.length)\<close> in
  the \<open>k\<close>-th iteration of the poll loop: the product and its floor are computed in
  IEEE doubles, which the model does not compute, so the index itself is an answer of
  the world. \<open>fetch_blob url\<close> stands for \<open>fetch(url)\<close> followed by
  \<open>response.blob()\<close>, \<open>createObjectURL\<close> for \<open>URL.createObjectURL\<close>.
\<close>

type_synonym blob = "8 word list"

record hosted =
  api_key :: "jsstring option"
  generateContent :: "jsstring \<Rightarrow> jsstring \<Rightarrow> js_error + content_response"
  generateVideos :: "jsstring \<Rightarrow> jsstring \<Rightarrow> jsstring \<Rightarrow> js_error + operation"
  getVideosOperation :: "nat \<Rightarrow> js_error + operation"
  random_index :: "nat \<Rightarrow> nat"
  fetch_blob :: "jsstring \<Rightarrow> js_error + blob"
  createObjectURL :: "blob \<Rightarrow> jsstring"

text \<open>
  The two revisions of the service module differ in their string constants and in the
  poll delay only; a \<open>service_cfg\<close> holds them.
\<close>

record service_cfg =
  fallback_prompt :: jsstring
  init_message :: jsstring
  submitted_message :: jsstring
  poll_delay :: nat
  messages :: "jsstring list"
  no_uri_message :: jsstring

definition drone_service :: service_cfg where
  "drone_service =
     \<lparr> fallback_prompt = lit ''A professional cinematic drone shot of the scene.'',
       init_message = lit ''Initializing cinematic sequence...'',
       submitted_message = lit ''Aerial drone in flight... framing the shot.'',
       poll_delay = 8000,
       messages =
         [lit ''Stabilizing gimbal trajectory...'',
          lit ''Adjusting aperture for natural lighting...'',
          lit ''Calculating parallax between layers...'',
          lit ''Rendering cinematic motion blur...'',
          lit ''Ensuring fluid drone physics...'',
          lit ''Finalizing commercial-grade output...''],
       no_uri_message = lit ''Video generation failed to return a URI.'' \<rparr>"

definition luxury_service :: service_cfg where
  "luxury_service =
     \<lparr> fallback_prompt = lit ''Clean aerial camera footage, 5-second cinematic luxury commercial reveal of the building, invisible-drone stabilized flight path.'',
       init_message = lit ''Initializing cinematic master sequence...'',
       submitted_message = lit ''Stabilizing aerial camera platform...'',
       poll_delay = 10000,
       messages =
         [lit ''Smoothing cinematic drift...'',
          lit ''Matching reference lighting and shadows...'',
          lit ''Refining structural geometry lock...'',
          lit ''Eliminating drone artifacts...'',
          lit ''Optimizing 5-second hero reveal...'',
          lit ''Finalizing luxury commercial export...''],
       no_uri_message = lit ''Aerial capture failed.'' \<rparr>"

definition service_versions :: "service_cfg list" where
  "service_versions = [drone_service, luxury_service]"

subsection \<open>generateDirectorPrompt\<close>

text \<open>
  \<open>return response.text?.trim() || FALLBACK\<close>: undefined and the empty string are falsy.
  A failure of the call propagates.
\<close>

definition generateDirectorPrompt ::
  "service_cfg \<Rightarrow> hosted \<Rightarrow> jsstring \<Rightarrow> jsstring \<Rightarrow> js_error + jsstring" where
  "generateDirectorPrompt cfg env imageBuffer mimeType =
     (case generateContent env imageBuffer mimeType of
        Inl e \<Rightarrow> Inl e
      | Inr response \<Rightarrow>
          (case map_option trim (text_field response) of
             None \<Rightarrow> Inr (fallback_prompt cfg)
           | Some t \<Rightarrow> if t = [] then Inr (fallback_prompt cfg) else Inr t))"

subsection \<open>generateVeoVideo\<close>

text \<open>
  What a run of \<open>generateVeoVideo\<close> does besides computing its result, in order: the
  calls of the progress callback, the submission, each wait of the poll loop (in
  milliseconds), each status request (numbered from 0) and the request for the video
  bytes.
\<close>

datatype event =
    OnUpdate jsstring
  | GenerateVideos
  | Sleep nat
  | GetVideosOperation nat
  | Fetch jsstring

text \<open>
  An asynchronous function has returned, has thrown, or is still waiting. The poll
  loop has no bound of its own, so the model runs it with a budget of iterations:
  \<open>Pending\<close> is a run that needs more iterations than the budget, with the events so far.
\<close>

datatype 'a outcome = Returned 'a | Threw js_error | Pending

text \<open>\<open>while (!operation.done)\<close>: the loop goes on while \<open>done\<close> is false or undefined.\<close>

definition is_done :: "operation \<Rightarrow> bool" where
  "is_done operation \<longleftrightarrow> op_done operation = Some True"

text \<open>
  \<open>messages[i]\<close> for the index \<open>i\<close> drawn in an iteration. \<open>Math.random()\<close> lies in
  \<open>[0, 1)\<close>, so the index drawn is below the length; for any other index JavaScript
  reads undefined, which shows as no message, as the empty string does.
\<close>

definition pick_message :: "jsstring list \<Rightarrow> nat \<Rightarrow> jsstring" where
  "pick_message ms i = (if i < length ms then ms ! i else [])"

text \<open>One iteration of the loop body whose status request returned.\<close>

definition iteration_events :: "service_cfg \<Rightarrow> hosted \<Rightarrow> nat \<Rightarrow> event list" where
  "iteration_events cfg env k =
     [Sleep (poll_delay cfg), GetVideosOperation k,
      OnUpdate (pick_message (messages cfg) (random_index env k))]"

text \<open>
  The loop, entered with \<open>k\<close> status requests already made and the current operation.
  The first argument is the budget of iterations.
\<close>

fun poll_loop ::
  "nat \<Rightarrow> service_cfg \<Rightarrow> hosted \<Rightarrow> nat \<Rightarrow> operation \<Rightarrow> operation outcome \<times> event list" where
  "poll_loop 0 cfg env k operation =
     (if is_done operation then (Returned operation, []) else (Pending, []))"
| "poll_loop (Suc budget) cfg env k operation =
     (if is_done operation then (Returned operation, [])
      else
        (case getVideosOperation env k of
           Inl e \<Rightarrow> (Threw e, [Sleep (poll_delay cfg), GetVideosOperation k])
         | Inr fetched \<Rightarrow>
             (case poll_loop budget cfg env (Suc k) fetched of
                (r, evs) \<Rightarrow> (r, iteration_events cfg env k @ evs))))"

text \<open>
  When the status requests return the states \<open>ops 0\<close>, \<open>ops 1\<close>, ..., a loop entered
  with \<open>operation\<close> holds \<open>held operation ops j\<close> after \<open>j\<close> requests.
\<close>

fun held :: "operation \<Rightarrow> (nat \<Rightarrow> operation) \<Rightarrow> nat \<Rightarrow> operation" where
  "held operation ops 0 = operation"
| "held operation ops (Suc j) = ops j"

text \<open>\<open>operation.response?.generatedVideos?.[0]?.video?.uri\<close>\<close>

definition downloadLink :: "operation \<Rightarrow> jsstring option" where
  "downloadLink operation =
     (case op_response operation of
        None \<Rightarrow> None
      | Some r \<Rightarrow>
          (case generatedVideos r of
             None \<Rightarrow> None
           | Some vs \<Rightarrow>
               (case vs of
                  [] \<Rightarrow> None
                | v # _ \<Rightarrow> (case video v of None \<Rightarrow> None | Some vid \<Rightarrow> uri vid))))"

text \<open>The template \<open>`${downloadLink}&key=${process.env.API_KEY}`\<close>.\<close>

definition video_request_url :: "hosted \<Rightarrow> jsstring \<Rightarrow> jsstring" where
  "video_request_url env link =
     link @ lit ''&key='' @ (case api_key env of None \<Rightarrow> lit ''undefined'' | Some k \<Rightarrow> k)"

text \<open>The catch clause around the submission.\<close>

definition submission_error :: "js_error \<Rightarrow> js_error" where
  "submission_error e =
     (if (case err_message e of
            None \<Rightarrow> False
          | Some m \<Rightarrow> js_includes m (lit ''Requested entity was not found''))
      then NewError (lit ''API_KEY_EXPIRED'')
      else e)"

text \<open>The statements after the loop: the locator is required; \<open>!downloadLink\<close> holds for
  undefined and for the empty string.\<close>

definition download :: "service_cfg \<Rightarrow> hosted \<Rightarrow> operation \<Rightarrow> jsstring outcome \<times> event list" where
  "download cfg env operation =
     (case downloadLink operation of
        None \<Rightarrow> (Threw (NewError (no_uri_message cfg)), [])
      | Some link \<Rightarrow>
          if link = [] then (Threw (NewError (no_uri_message cfg)), [])
          else
            (case fetch_blob env (video_request_url env link) of
               Inl e \<Rightarrow> (Threw e, [Fetch (video_request_url env link)])
             | Inr b \<Rightarrow> (Returned (createObjectURL env b), [Fetch (video_request_url env link)])))"

definition generateVeoVideo ::
  "nat \<Rightarrow> service_cfg \<Rightarrow> hosted \<Rightarrow> jsstring \<Rightarrow> jsstring \<Rightarrow> jsstring
     \<Rightarrow> jsstring outcome \<times> event list" where
  "generateVeoVideo budget cfg env prompt imageBuffer mimeType =
     (case generateVideos env prompt imageBuffer mimeType of
        Inl e \<Rightarrow> (Threw (submission_error e), [OnUpdate (init_message cfg), GenerateVideos])
      | Inr operation \<Rightarrow>
          (case poll_loop budget cfg env 0 operation of
             (Pending, evs) \<Rightarrow>
               (Pending,
                [OnUpdate (init_message cfg), GenerateVideos, OnUpdate (submitted_message cfg)] @ evs)
           | (Threw e, evs) \<Rightarrow>
               (Threw e,
                [OnUpdate (init_message cfg), GenerateVideos, OnUpdate (submitted_message cfg)] @ evs)
           | (Returned finished, evs) \<Rightarrow>
               (case download cfg env finished of
                  (r, evs') \<Rightarrow>
                    (r, [OnUpdate (init_message cfg), GenerateVideos,
                         OnUpdate (submitted_message cfg)] @ evs @ evs'))))"

section \<open>The application component\<close>

datatype step = idle | analyzing | generating | polling | completed | error

record VideoGenerationStatus =
  step :: step
  message :: jsstring
  progress :: "real option"

record GenerationResult =
  videoUrl :: jsstring
  directorPrompt :: jsstring

record image =
  data :: jsstring
  mimeType :: jsstring

text \<open>The three \<open>useState\<close> cells of \<open>App\<close>.\<close>

record app_state =
  selectedImage :: "image option"
  status :: VideoGenerationStatus
  result :: "GenerationResult option"

definition initial_state :: app_state where
  "initial_state =
     \<lparr> selectedImage = None,
       status = \<lparr> step = idle, message = [], progress = None \<rparr>,
       result = None \<rparr>"

text \<open>
  \<open>window.aistudio\<close> of the hosting page. Each of its calls may reject.
  \<open>openSelectKey k\<close> is the outcome of the \<open>k\<close>-th call of a run (\<open>None\<close>: it
  resolves); \<open>openSelectKey_defined\<close> is the truth value of
  \<open>window.aistudio?.openSelectKey\<close>.
\<close>

record aistudio =
  hasSelectedApiKey :: "js_error + bool"
  openSelectKey_defined :: bool
  openSelectKey :: "nat \<Rightarrow> js_error option"

text \<open>
  The two revisions of \<open>App\<close> differ in the status messages and in \<open>ensureApiKey\<close>.
  \<open>ensureApiKey\<close> yields its return value and the number of \<open>openSelectKey\<close> calls it
  has made.
\<close>

record app_cfg =
  analyzing_message :: jsstring
  generating_message :: jsstring
  completed_message :: jsstring
  key_expired_message :: jsstring
  interrupted_message :: jsstring
  ensureApiKey :: "aistudio \<Rightarrow> bool \<times> nat"

text \<open>
  First revision: the catch clause calls \<open>openSelectKey\<close> again when it is there and
  swallows its rejection; every path returns true.
\<close>

definition ensureApiKey_luxury_catch :: "aistudio \<Rightarrow> nat \<Rightarrow> bool \<times> nat" where
  "ensureApiKey_luxury_catch host n =
     (if openSelectKey_defined host then (True, Suc n) else (True, n))"

definition ensureApiKey_luxury :: "aistudio \<Rightarrow> bool \<times> nat" where
  "ensureApiKey_luxury host =
     (case hasSelectedApiKey host of
        Inl err \<Rightarrow> ensureApiKey_luxury_catch host 0
      | Inr hasKey \<Rightarrow>
          if \<not> hasKey then
            (case openSelectKey host 0 of
               Some err \<Rightarrow> ensureApiKey_luxury_catch host 1
             | None \<Rightarrow> (True, 1))
          else (True, 0))"

text \<open>Second revision: the catch clause logs the error and returns false.\<close>

definition ensureApiKey_drone :: "aistudio \<Rightarrow> bool \<times> nat" where
  "ensureApiKey_drone host =
     (case hasSelectedApiKey host of
        Inl err \<Rightarrow> (False, 0)
      | Inr hasKey \<Rightarrow>
          if \<not> hasKey then
            (case openSelectKey host 0 of
               Some err \<Rightarrow> (False, 1)
             | None \<Rightarrow> (True, 1))
          else (True, 0))"

definition luxury_app :: app_cfg where
  "luxury_app =
     \<lparr> analyzing_message = lit ''Director composing 5s hero sequence...'',
       generating_message = lit ''Generating cinematic master...'',
       completed_message = lit ''Cinema master ready.'',
       key_expired_message = lit ''Select your paid API key and retry.'',
       interrupted_message = lit ''Production interrupted.'',
       ensureApiKey = ensureApiKey_luxury \<rparr>"

definition drone_app :: app_cfg where
  "drone_app =
     \<lparr> analyzing_message = lit ''Director analyzing reference images...'',
       generating_message = lit ''Starting drone flight sequence...'',
       completed_message = lit ''Production complete.'',
       key_expired_message = lit ''Please re-select your paid API key and try again.'',
       interrupted_message = lit ''Production interrupted. Check console for details.'',
       ensureApiKey = ensureApiKey_drone \<rparr>"

definition app_versions :: "app_cfg list" where
  "app_versions = [luxury_app, drone_app]"

subsection \<open>handleImageUpload\<close>

text \<open>
  The file chosen in the input, after the reader has loaded it: \<open>base64Data\<close> is
  \<open>reader.result.split(',')[1]\<close> and \<open>file_type\<close> is \<open>file.type\<close>. \<open>None\<close> is an event
  without a file.
\<close>

record uploaded_file =
  base64Data :: jsstring
  file_type :: jsstring

definition handleImageUpload :: "uploaded_file option \<Rightarrow> app_state \<Rightarrow> app_state" where
  "handleImageUpload file s =
     (case file of
        None \<Rightarrow> s
      | Some f \<Rightarrow>
          s\<lparr> selectedImage := Some \<lparr> data = base64Data f, mimeType = file_type f \<rparr>,
             result := None \<rparr>)"

text \<open>The button on the preview: \<open>setSelectedImage(null)\<close>.\<close>

definition clear_image :: "app_state \<Rightarrow> app_state" where
  "clear_image s = s\<lparr> selectedImage := None \<rparr>"

subsection \<open>startGeneration\<close>

definition setStatus :: "step \<Rightarrow> jsstring \<Rightarrow> app_state \<Rightarrow> app_state" where
  "setStatus st msg s = s\<lparr> status := \<lparr> step = st, message = msg, progress = None \<rparr> \<rparr>"

text \<open>The callback given to \<open>generateVeoVideo\<close>:
  \<open>(msg) => setStatus(prev => ({ ...prev, message: msg }))\<close>.\<close>

definition on_update :: "jsstring \<Rightarrow> app_state \<Rightarrow> app_state" where
  "on_update msg s = s\<lparr> status := (status s)\<lparr> message := msg \<rparr> \<rparr>"

text \<open>The states that the callback produces for the events of a run, in order.\<close>

fun forward_updates :: "event list \<Rightarrow> app_state \<Rightarrow> app_state list" where
  "forward_updates [] s = []"
| "forward_updates (OnUpdate msg # evs) s = on_update msg s # forward_updates evs (on_update msg s)"
| "forward_updates (ev # evs) s = forward_updates evs s"

text \<open>
  The functions below return the outcome of the asynchronous function together with
  the list of the application states after each state setter call, in order.

  The \<open>try\<close> block of \<open>startGeneration\<close>.
\<close>

definition generation_try ::
  "nat \<Rightarrow> app_cfg \<Rightarrow> service_cfg \<Rightarrow> hosted \<Rightarrow> image \<Rightarrow> app_state
     \<Rightarrow> unit outcome \<times> app_state list" where
  "generation_try budget app svc env img s =
     (let s1 = setStatus analyzing (analyzing_message app) s in
      case generateDirectorPrompt svc env (data img) (mimeType img) of
        Inl e \<Rightarrow> (Threw e, [s1])
      | Inr prompt \<Rightarrow>
          (let s2 = setStatus generating (generating_message app) s1 in
           case generateVeoVideo budget svc env prompt (data img) (mimeType img) of
             (r, evs) \<Rightarrow>
               (let ups = forward_updates evs s2; s3 = last (s2 # ups) in
                case r of
                  Pending \<Rightarrow> (Pending, s1 # s2 # ups)
                | Threw e \<Rightarrow> (Threw e, s1 # s2 # ups)
                | Returned url \<Rightarrow>
                    (let s4 = s3\<lparr> result := Some \<lparr> videoUrl = url, directorPrompt = prompt \<rparr> \<rparr>;
                         s5 = setStatus completed (completed_message app) s4
                     in (Returned (), s1 # s2 # ups @ [s4, s5])))))"

text \<open>The \<open>catch\<close> block, entered with \<open>n\<close> earlier \<open>openSelectKey\<close> calls.\<close>

definition generation_catch ::
  "app_cfg \<Rightarrow> aistudio \<Rightarrow> nat \<Rightarrow> js_error \<Rightarrow> app_state \<Rightarrow> unit outcome \<times> app_state list" where
  "generation_catch app host n e s =
     (if err_message e = Some (lit ''API_KEY_EXPIRED'') then
        (case openSelectKey host n of
           Some e' \<Rightarrow> (Threw e', [])
         | None \<Rightarrow> (Returned (), [setStatus error (key_expired_message app) s]))
      else (Returned (), [setStatus error (interrupted_message app) s]))"

definition startGeneration ::
  "nat \<Rightarrow> app_cfg \<Rightarrow> service_cfg \<Rightarrow> hosted \<Rightarrow> aistudio \<Rightarrow> app_state
     \<Rightarrow> unit outcome \<times> app_state list" where
  "startGeneration budget app svc env host s =
     (case selectedImage s of
        None \<Rightarrow> (Returned (), [])
      | Some img \<Rightarrow>
          (case ensureApiKey app host of
             (hasKey, n) \<Rightarrow>
               if \<not> hasKey then (Returned (), [])
               else
                 (case generation_try budget app svc env img s of
                    (r, tr) \<Rightarrow>
                      (case r of
                         Threw e \<Rightarrow>
                           (case generation_catch app host n e (last (s # tr)) of
                              (r', tr') \<Rightarrow> (r', tr @ tr'))
                       | Returned u \<Rightarrow> (Returned u, tr)
                       | Pending \<Rightarrow> (Pending, tr)))))"

text \<open>The generate button: its \<open>disabled\<close> attribute and its click handler.\<close>

definition generate_disabled :: "app_state \<Rightarrow> bool" where
  "generate_disabled s \<longleftrightarrow>
     selectedImage s = None \<or>
     (step (status s) \<noteq> idle \<and> step (status s) \<noteq> completed \<and> step (status s) \<noteq> error)"

definition click_generate ::
  "nat \<Rightarrow> app_cfg \<Rightarrow> service_cfg \<Rightarrow> hosted \<Rightarrow> aistudio \<Rightarrow> app_state
     \<Rightarrow> unit outcome \<times> app_state list" where
  "click_generate budget app svc env host s =
     (if generate_disabled s then (Returned (), [])
      else startGeneration budget app svc env host s)"

text \<open>
  The states of the application: the initial one, and those produced by an upload
  event, by clearing the image, and by each setter call of a generation started with the
  button, for any answers of the services and any budget.
\<close>

inductive reachable :: "app_cfg \<Rightarrow> service_cfg \<Rightarrow> app_state \<Rightarrow> bool"
  for app :: app_cfg and svc :: service_cfg where
  start: "reachable app svc initial_state"
| upload: "reachable app svc s \<Longrightarrow> reachable app svc (handleImageUpload file s)"
| clear: "reachable app svc s \<Longrightarrow> reachable app svc (clear_image s)"
| generate:
    "reachable app svc s \<Longrightarrow> click_generate budget app svc env host s = (r, tr)
       \<Longrightarrow> t \<in> set tr \<Longrightarrow> reachable app svc t"

section \<open>Sample inputs\<close>

text \<open>Concrete operations, service answers and application states, used to run the
  functions above on explicit inputs.\<close>

definition running_operation :: operation where
  "running_operation = \<lparr> op_done = Some False, op_response = None \<rparr>"

definition finished_operation :: operation where
  "finished_operation =
     \<lparr> op_done = Some True,
       op_response = Some \<lparr> generatedVideos =
         Some [\<lparr> video = Some \<lparr> uri = Some (lit ''https://videos.example/v1?alt=media'') \<rparr> \<rparr>] \<rparr> \<rparr>"

definition unlocated_operation :: operation where
  "unlocated_operation =
     \<lparr> op_done = Some True, op_response = Some \<lparr> generatedVideos = Some [] \<rparr> \<rparr>"

definition sample_ops :: "nat \<Rightarrow> operation" where
  "sample_ops k = (if k = 0 then running_operation else finished_operation)"

definition sample_env :: hosted where
  "sample_env =
     \<lparr> api_key = Some (lit ''KEY''),
       generateContent = (\<lambda>image mime. Inr \<lparr> text_field = Some (lit '' Slow orbit. '') \<rparr>),
       generateVideos = (\<lambda>prompt image mime. Inr running_operation),
       getVideosOperation = (\<lambda>k. Inr (sample_ops k)),
       random_index = (\<lambda>k. 3),
       fetch_blob =
         (\<lambda>url. if url = lit ''https://videos.example/v1?alt=media&key=KEY''
                then Inr [0x00, 0x01]
                else Inl (Thrown (Some (lit ''Failed to fetch'')) 9)),
       createObjectURL =
         (\<lambda>b. if b = [0x00, 0x01] then lit ''blob:video'' else lit ''blob:other'') \<rparr>"

definition not_found_error :: js_error where
  "not_found_error = Thrown (Some (lit ''404: Requested entity was not found.'')) 7"

definition sample_host :: aistudio where
  "sample_host =
     \<lparr> hasSelectedApiKey = Inr True,
       openSelectKey_defined = True,
       openSelectKey = (\<lambda>k. None) \<rparr>"

definition sample_image :: image where
  "sample_image = \<lparr> data = lit ''/9j/4AAQ'', mimeType = lit ''image/jpeg'' \<rparr>"

definition sample_state :: app_state where
  "sample_state = initial_state\<lparr> selectedImage := Some sample_image \<rparr>"

definition earlier_result :: GenerationResult where
  "earlier_result = \<lparr> videoUrl = lit ''blob:earlier'', directorPrompt = lit ''Earlier prompt.'' \<rparr>"

definition completed_state :: app_state where
  "completed_state =
     \<lparr> selectedImage = Some sample_image,
       status = \<lparr> step = completed, message = lit ''Cinema master ready.'', progress = None \<rparr>,
       result = Some earlier_result \<rparr>"

text \<open>Services whose text model fails with an error whose message is \<open>API_KEY_EXPIRED\<close>.\<close>

definition key_named_error :: js_error where
  "key_named_error = Thrown (Some (lit ''API_KEY_EXPIRED'')) 3"

definition failing_text_env :: hosted where
  "failing_text_env = sample_env\<lparr> generateContent := \<lambda>image mime. Inl key_named_error \<rparr>"

text \<open>Services whose submission fails because the requested entity was not found.\<close>

definition failing_submit_env :: hosted where
  "failing_submit_env = sample_env\<lparr> generateVideos := \<lambda>prompt image mime. Inl not_found_error \<rparr>"

text \<open>Services whose submitted operation is done at once and has no video.\<close>

definition unlocated_env :: hosted where
  "unlocated_env = sample_env\<lparr> generateVideos := \<lambda>prompt image mime. Inr unlocated_operation \<rparr>"

section \<open>Properties\<close>

lemma lit_eq_Nil [simp]: "lit s = [] \<longleftrightarrow> s = []"
  by (simp add: lit_def)

lemma fallback_prompt_nonempty:
  "cfg \<in> set service_versions \<Longrightarrow> fallback_prompt cfg \<noteq> []"
  by (auto simp: service_versions_def drone_service_def luxury_service_def)

lemma of_char_lt_256: "(of_char c :: nat) < 256"
  by (metis of_char_mod_256 mod_less_divisor zero_less_numeral)

lemma of_char_word_eq_iff [simp]: "(of_char c :: 16 word) = of_char d \<longleftrightarrow> c = d"
proof -
  have "(of_char c :: 16 word) = word_of_nat (of_char c)" "(of_char d :: 16 word) = word_of_nat (of_char d)"
    by (simp_all add: of_nat_of_char)
  moreover have "take_bit 16 (of_char x :: nat) = of_char x" for x
  proof -
    have "(of_char x :: nat) < 2 ^ 16"
      by (rule less_trans[OF of_char_lt_256]) simp
    then show ?thesis
      by (simp only: take_bit_nat_eq_self_iff)
  qed
  ultimately show ?thesis
    by (simp add: word_of_nat_eq_iff)
qed

lemma lit_eq_iff [simp]: "lit a = lit b \<longleftrightarrow> a = b"
  by (simp add: lit_def inj_map_eq_map inj_def)

lemma js_includes_sublist: "js_includes s p \<longleftrightarrow> sublist p s"
  by (induction s) (auto simp: sublist_Cons_right)

lemma js_includes_iff: "js_includes s p \<longleftrightarrow> (\<exists>a b. s = a @ p @ b)"
  by (simp add: js_includes_sublist sublist_def)

text \<open>
  Claim C1. Whenever the text model call returns, \<open>generateDirectorPrompt\<close> returns a
  non-empty string: the trimmed text of the response when that is non-empty, and the
  fixed fallback string of the service revision otherwise; in particular the fallback
  when the text field is missing or empty.
\<close>

theorem generateDirectorPrompt_result:
  assumes "cfg \<in> set service_versions"
    and "generateContent env imageBuffer mime = Inr resp"
  shows "\<exists>p. generateDirectorPrompt cfg env imageBuffer mime = Inr p \<and> p \<noteq> [] \<and>
           p = (case text_field resp of
                  None \<Rightarrow> fallback_prompt cfg
                | Some t \<Rightarrow> if trim t \<noteq> [] then trim t else fallback_prompt cfg) \<and>
           (text_field resp = None \<or> text_field resp = Some [] \<longrightarrow> p = fallback_prompt cfg)"
  using assms fallback_prompt_nonempty[of cfg]
  by (auto simp: generateDirectorPrompt_def trim_def split: option.splits)

text \<open>
  Claim C2. When the submission throws \<open>e\<close>, \<open>generateVeoVideo\<close> throws a new error
  with message \<open>API_KEY_EXPIRED\<close> if the message of \<open>e\<close> contains
  \<open>Requested entity was not found\<close>, and \<open>e\<close> itself otherwise.
\<close>

theorem generateVeoVideo_submission_error:
  assumes "generateVideos env prompt imageBuffer mime = Inl e"
  shows "fst (generateVeoVideo budget cfg env prompt imageBuffer mime) =
           (if \<exists>m a b. err_message e = Some m \<and> m = a @ lit ''Requested entity was not found'' @ b
            then Threw (NewError (lit ''API_KEY_EXPIRED''))
            else Threw e)
         \<and> err_message (NewError (lit ''API_KEY_EXPIRED'')) = Some (lit ''API_KEY_EXPIRED'')"
  using assms
  by (auto simp: generateVeoVideo_def submission_error_def js_includes_iff split: option.splits)

lemma poll_loop_done: "is_done operation \<Longrightarrow> poll_loop b cfg env k operation = (Returned operation, [])"
  by (cases b) simp_all

lemma held_shift: "held (ops 0) (\<lambda>j. ops (Suc j)) j = held operation ops (Suc j)"
  by (cases j) simp_all

lemma poll_loop_returns:
  assumes "\<forall>j<m. getVideosOperation env (k + j) = Inr (ops j)"
    and "\<forall>j<m. \<not> is_done (held operation ops j)"
    and "is_done (held operation ops m)"
    and "m \<le> b"
  shows "poll_loop b cfg env k operation =
           (Returned (held operation ops m), concat (map (iteration_events cfg env) [k..<k + m]))"
  using assms
proof (induction m arbitrary: b k operation ops)
  case 0
  then show ?case by (simp add: poll_loop_done)
next
  case (Suc m)
  from Suc.prems(4) obtain b' where b: "b = Suc b'" and mb: "m \<le> b'"
    by (cases b) auto
  from Suc.prems(2) have nd: "\<not> is_done operation"
    by (metis held.simps(1) zero_less_Suc)
  from Suc.prems(1) have g0: "getVideosOperation env k = Inr (ops 0)"
    by (metis add.right_neutral zero_less_Suc)
  have a1: "\<forall>j<m. getVideosOperation env (Suc k + j) = Inr (ops (Suc j))"
    using Suc.prems(1) by (metis Suc_less_eq add_Suc_shift)
  have a2: "\<forall>j<m. \<not> is_done (held (ops 0) (\<lambda>j. ops (Suc j)) j)"
    using Suc.prems(2) by (auto simp: held_shift[where operation=operation])
  have a3: "is_done (held (ops 0) (\<lambda>j. ops (Suc j)) m)"
    using Suc.prems(3) by (simp add: held_shift[where operation=operation])
  have ih: "poll_loop b' cfg env (Suc k) (ops 0) =
      (Returned (held (ops 0) (\<lambda>j. ops (Suc j)) m),
       concat (map (iteration_events cfg env) [Suc k..<Suc k + m]))"
    by (rule Suc.IH[OF a1 a2 a3 mb])
  show ?case
    by (simp add: b nd g0 ih held_shift[where operation=operation] upt_conv_Cons del: upt_Suc)
qed

lemma poll_loop_pending:
  assumes "\<forall>j<b. getVideosOperation env (k + j) = Inr (ops j)"
    and "\<forall>j\<le>b. \<not> is_done (held operation ops j)"
  shows "poll_loop b cfg env k operation =
           (Pending, concat (map (iteration_events cfg env) [k..<k + b]))"
  using assms
proof (induction b arbitrary: k operation ops)
  case 0
  then show ?case by simp
next
  case (Suc b)
  from Suc.prems(2) have nd: "\<not> is_done operation"
    by (metis held.simps(1) zero_le)
  from Suc.prems(1) have g0: "getVideosOperation env k = Inr (ops 0)"
    by (metis add.right_neutral zero_less_Suc)
  have a1: "\<forall>j<b. getVideosOperation env (Suc k + j) = Inr (ops (Suc j))"
    using Suc.prems(1) by (metis Suc_less_eq add_Suc_shift)
  have a2: "\<forall>j\<le>b. \<not> is_done (held (ops 0) (\<lambda>j. ops (Suc j)) j)"
    using Suc.prems(2) by (auto simp: held_shift[where operation=operation])
  have ih: "poll_loop b cfg env (Suc k) (ops 0) =
      (Pending, concat (map (iteration_events cfg env) [Suc k..<Suc k + b]))"
    by (rule Suc.IH[OF a1 a2])
  show ?case
    by (simp add: nd g0 ih upt_conv_Cons del: upt_Suc)
qed

lemma poll_loop_Returned_done:
  "poll_loop b cfg env k operation = (Returned finished, evs) \<Longrightarrow> is_done finished"
  by (induction b arbitrary: k operation evs) (auto split: if_splits sum.splits prod.splits)

lemma poll_loop_no_fetch: "poll_loop b cfg env k operation = (r, evs) \<Longrightarrow> Fetch u \<notin> set evs"
  by (induction b arbitrary: k operation r evs)
    (auto simp: iteration_events_def split: if_splits sum.splits prod.splits)

lemma request_in_iterations:
  "GetVideosOperation i \<in> set (concat (map (iteration_events cfg env) [k..<k + m])) \<longleftrightarrow> k \<le> i \<and> i < k + m"
  by (auto simp: iteration_events_def)

lemma first_done:
  assumes "is_done (held operation ops n)"
  shows "\<exists>m\<le>n. is_done (held operation ops m) \<and> (\<forall>j<m. \<not> is_done (held operation ops j))"
proof -
  let ?P = "\<lambda>j. is_done (held operation ops j)"
  have "?P (LEAST j. ?P j)" using assms by (rule LeastI)
  moreover have "(LEAST j. ?P j) \<le> n" using assms by (rule Least_le)
  moreover have "\<forall>j<(LEAST j. ?P j). \<not> ?P j" using not_less_Least by blast
  ultimately show ?thesis by blast
qed

lemma poll_loop_cases:
  assumes "\<forall>j. getVideosOperation env j = Inr (ops j)"
  shows "\<exists>m\<le>b. poll_loop b cfg env 0 operation =
            ((if is_done (held operation ops m) then Returned (held operation ops m) else Pending),
             concat (map (iteration_events cfg env) [0..<m])) \<and>
          (\<forall>j<m. \<not> is_done (held operation ops j)) \<and>
          (is_done (held operation ops m) \<or> m = b)"
proof (cases "\<exists>n\<le>b. is_done (held operation ops n)")
  case True
  then obtain n where n: "n \<le> b" "is_done (held operation ops n)" by blast
  from first_done[OF n(2)] obtain m where m: "m \<le> n" "is_done (held operation ops m)"
    "\<forall>j<m. \<not> is_done (held operation ops j)" by blast
  have "poll_loop b cfg env 0 operation =
      (Returned (held operation ops m), concat (map (iteration_events cfg env) [0..<0 + m]))"
    using assms m n by (intro poll_loop_returns) auto
  with m n show ?thesis by (intro exI[of _ m]) auto
next
  case False
  then have nd: "\<forall>j\<le>b. \<not> is_done (held operation ops j)" by blast
  have "poll_loop b cfg env 0 operation =
      (Pending, concat (map (iteration_events cfg env) [0..<0 + b]))"
    using assms nd by (intro poll_loop_pending) auto
  with nd show ?thesis by (intro exI[of _ b]) auto
qed

text \<open>
  Claim C3. For every sequence \<open>ops\<close> of fetched states, the events of the poll loop
  are \<open>m\<close> iterations, each one wait, one status request and one call of the progress
  callback; every iteration started with an operation that was not done; when the
  operation held after them is done the loop has returned it, and otherwise the budget is
  used up; no status request follows one that fetched a done operation.
\<close>

theorem poll_loop_callback_and_exit:
  assumes "\<forall>j. getVideosOperation env j = Inr (ops j)"
    and "poll_loop b cfg env 0 operation = (r, evs)"
  shows "\<exists>m\<le>b.
           evs = concat (map (\<lambda>j. [Sleep (poll_delay cfg), GetVideosOperation j,
                                      OnUpdate (pick_message (messages cfg) (random_index env j))]) [0..<m]) \<and>
           (\<forall>j<m. \<not> is_done (held operation ops j)) \<and>
           (if is_done (held operation ops m) then r = Returned (held operation ops m)
            else r = Pending \<and> m = b) \<and>
           (\<forall>j i. is_done (ops j) \<and> j < i \<longrightarrow> GetVideosOperation i \<notin> set evs)"
proof -
  from poll_loop_cases[OF assms(1), of b cfg operation] obtain m where m: "m \<le> b"
    "poll_loop b cfg env 0 operation =
       ((if is_done (held operation ops m) then Returned (held operation ops m) else Pending),
        concat (map (iteration_events cfg env) [0..<m]))"
    "\<forall>j<m. \<not> is_done (held operation ops j)"
    "is_done (held operation ops m) \<or> m = b"
    by blast
  from m(2) assms(2) have r: "r = (if is_done (held operation ops m) then Returned (held operation ops m) else Pending)"
    and evs: "evs = concat (map (iteration_events cfg env) [0..<m])"
    by simp_all
  have later: "GetVideosOperation i \<notin> set evs" if "is_done (ops j)" "j < i" for i j
  proof
    assume "GetVideosOperation i \<in> set evs"
    then have "i < m" using request_in_iterations[of i cfg env 0 m] evs by simp
    with that(2) have "Suc j < m" by simp
    with m(3) have "\<not> is_done (held operation ops (Suc j))" by blast
    with that(1) show False by simp
  qed
  have evs': "evs = concat (map (\<lambda>j. [Sleep (poll_delay cfg), GetVideosOperation j,
                                      OnUpdate (pick_message (messages cfg) (random_index env j))]) [0..<m])"
    unfolding evs iteration_events_def ..
  show ?thesis
    using m(1) m(3) m(4) r evs' later by (intro exI[of _ m]) auto
qed

text \<open>
  Claim C5. When the status requests return the states \<open>ops\<close>, the poll loop leaves
  the pending state for some budget exactly when some held operation is done; if the
  first done operation is the one held after \<open>n\<close> requests, every budget of at least
  \<open>n\<close> iterations returns it after exactly \<open>n\<close> iterations and every smaller budget
  is still pending; if no held operation is ever done, the loop uses up every budget,
  however large, and is still pending.
\<close>

theorem poll_loop_terminates_iff:
  assumes "\<forall>j. getVideosOperation env j = Inr (ops j)"
  shows "((\<exists>b. fst (poll_loop b cfg env 0 operation) \<noteq> Pending) \<longleftrightarrow> (\<exists>n. is_done (held operation ops n))) \<and>
         (\<forall>n. is_done (held operation ops n) \<and> (\<forall>j<n. \<not> is_done (held operation ops j)) \<longrightarrow>
            (\<forall>b\<ge>n. poll_loop b cfg env 0 operation =
               (Returned (held operation ops n), concat (map (iteration_events cfg env) [0..<n]))) \<and>
            (\<forall>b<n. fst (poll_loop b cfg env 0 operation) = Pending)) \<and>
         ((\<forall>n. \<not> is_done (held operation ops n)) \<longrightarrow>
            (\<forall>b. poll_loop b cfg env 0 operation =
               (Pending, concat (map (iteration_events cfg env) [0..<b]))))"
proof -
  have ret: "poll_loop b cfg env 0 operation =
      (Returned (held operation ops n), concat (map (iteration_events cfg env) [0..<n]))"
    if "is_done (held operation ops n)" "\<forall>j<n. \<not> is_done (held operation ops j)" "n \<le> b" for n b
    using poll_loop_returns[of n env 0 ops operation b cfg] assms that by simp
  have pend: "poll_loop b cfg env 0 operation =
      (Pending, concat (map (iteration_events cfg env) [0..<b]))"
    if "\<forall>j\<le>b. \<not> is_done (held operation ops j)" for b
    using poll_loop_pending[of b env 0 ops operation cfg] assms that by simp
  have A: "(\<exists>b. fst (poll_loop b cfg env 0 operation) \<noteq> Pending) \<longleftrightarrow> (\<exists>n. is_done (held operation ops n))"
  proof
    assume "\<exists>b. fst (poll_loop b cfg env 0 operation) \<noteq> Pending"
    then obtain b where b: "fst (poll_loop b cfg env 0 operation) \<noteq> Pending" ..
    show "\<exists>n. is_done (held operation ops n)"
    proof (rule ccontr)
      assume "\<not> (\<exists>n. is_done (held operation ops n))"
      then have "\<forall>j\<le>b. \<not> is_done (held operation ops j)" by blast
      from pend[OF this] b show False by simp
    qed
  next
    assume "\<exists>n. is_done (held operation ops n)"
    then obtain n where "is_done (held operation ops n)" ..
    from first_done[OF this] obtain m where m: "is_done (held operation ops m)"
      "\<forall>j<m. \<not> is_done (held operation ops j)" by blast
    from ret[OF m le_refl] show "\<exists>b. fst (poll_loop b cfg env 0 operation) \<noteq> Pending"
      by (intro exI[of _ m]) simp
  qed
  have B: "fst (poll_loop b cfg env 0 operation) = Pending"
    if "\<forall>j<n. \<not> is_done (held operation ops j)" "b < n" for n b
  proof -
    from that have "\<forall>j\<le>b. \<not> is_done (held operation ops j)" by auto
    from pend[OF this] show ?thesis by simp
  qed
  have C: "\<forall>b\<ge>n. poll_loop b cfg env 0 operation =
               (Returned (held operation ops n), concat (map (iteration_events cfg env) [0..<n]))"
    if "is_done (held operation ops n) \<and> (\<forall>j<n. \<not> is_done (held operation ops j))" for n
    using ret that by blast
  have D: "\<forall>b<n. fst (poll_loop b cfg env 0 operation) = Pending"
    if "is_done (held operation ops n) \<and> (\<forall>j<n. \<not> is_done (held operation ops j))" for n
    using B that by blast
  have E: "\<forall>b. poll_loop b cfg env 0 operation =
               (Pending, concat (map (iteration_events cfg env) [0..<b]))"
    if "\<forall>n. \<not> is_done (held operation ops n)"
    using pend that by blast
  show ?thesis
    apply (intro conjI)
      apply (rule A)
     apply (use C D in blast)
    apply (use E in blast)
    done
qed

lemma download_no_locator:
  "downloadLink finished = None \<or> downloadLink finished = Some [] \<Longrightarrow>
   download cfg env finished = (Threw (NewError (no_uri_message cfg)), [])"
  by (auto simp: download_def)

text \<open>
  Claim C4, amended. When the poll loop ends with an operation that is done and whose video
  locator is absent (or empty), \<open>generateVeoVideo\<close> throws a new error with the fixed
  message of the service revision and its events contain no request for video bytes.
  The message is \<open>Aerial capture failed.\<close> in one revision and
  \<open>Video generation failed to return a URI.\<close> in the other.
\<close>

theorem generateVeoVideo_no_locator:
  assumes "generateVideos env prompt imageBuffer mime = Inr submitted"
    and "poll_loop b cfg env 0 submitted = (Returned finished, evs)"
    and "downloadLink finished = None \<or> downloadLink finished = Some []"
  shows "is_done finished \<and>
         fst (generateVeoVideo b cfg env prompt imageBuffer mime) = Threw (NewError (no_uri_message cfg)) \<and>
         (\<forall>u. Fetch u \<notin> set (snd (generateVeoVideo b cfg env prompt imageBuffer mime))) \<and>
         no_uri_message luxury_service = lit ''Aerial capture failed.'' \<and>
         no_uri_message drone_service = lit ''Video generation failed to return a URI.''"
proof -
  have d: "is_done finished"
    using assms(2) by (rule poll_loop_Returned_done)
  have g: "generateVeoVideo b cfg env prompt imageBuffer mime =
      (Threw (NewError (no_uri_message cfg)),
       [OnUpdate (init_message cfg), GenerateVideos, OnUpdate (submitted_message cfg)] @ evs @ [])"
    by (simp add: generateVeoVideo_def assms(1,2) download_no_locator[OF assms(3)])
  have nf: "Fetch u \<notin> set evs" for u
    using assms(2) by (rule poll_loop_no_fetch)
  show ?thesis
    using d nf by (simp add: g luxury_service_def drone_service_def)
qed

lemma forward_updates_keep:
  "t \<in> set (forward_updates evs s) \<Longrightarrow>
     step (status t) = step (status s) \<and> result t = result s \<and> selectedImage t = selectedImage s"
  by (induction evs s rule: forward_updates.induct) (auto simp: on_update_def)

lemma last_forward_updates_keep:
  "step (status (last (s # forward_updates evs s))) = step (status s) \<and>
   result (last (s # forward_updates evs s)) = result s \<and>
   selectedImage (last (s # forward_updates evs s)) = selectedImage s"
proof (cases "forward_updates evs s = []")
  case True
  then show ?thesis by simp
next
  case False
  then have "last (s # forward_updates evs s) \<in> set (forward_updates evs s)"
    by simp
  then show ?thesis by (rule forward_updates_keep)
qed

lemma map_step_forward_updates:
  "map (step \<circ> status) (forward_updates evs s) =
     replicate (length (forward_updates evs s)) (step (status s))"
proof -
  have "\<forall>y\<in>set (map (step \<circ> status) (forward_updates evs s)). y = step (status s)"
    by (auto dest: forward_updates_keep)
  from replicate_length_same[OF this] show ?thesis by simp
qed

lemma remdups_adj_run: "remdups_adj (x # replicate n x @ x # ys) = remdups_adj (x # ys)"
  by (induction n) simp_all

lemma remdups_adj_steps:
  "remdups_adj (idle # analyzing # generating # replicate n generating @ [generating, completed]) =
     [idle, analyzing, generating, completed]"
  using remdups_adj_run[of generating n "[completed]"] by simp

lemma generateVeoVideo_returns:
  assumes "generateVideos env prompt imageBuffer mime = Inr submitted"
    and "\<forall>j. getVideosOperation env j = Inr (ops j)"
    and "is_done (held submitted ops n)"
    and "\<forall>j<n. \<not> is_done (held submitted ops j)"
    and "downloadLink (held submitted ops n) = Some link"
    and "link \<noteq> []"
    and "fetch_blob env (video_request_url env link) = Inr bytes"
    and "n \<le> b"
  shows "generateVeoVideo b cfg env prompt imageBuffer mime =
           (Returned (createObjectURL env bytes),
            [OnUpdate (init_message cfg), GenerateVideos, OnUpdate (submitted_message cfg)] @
            concat (map (iteration_events cfg env) [0..<n]) @ [Fetch (video_request_url env link)])"
proof -
  have p: "poll_loop b cfg env 0 submitted =
      (Returned (held submitted ops n), concat (map (iteration_events cfg env) [0..<n]))"
    using poll_loop_returns[of n env 0 ops submitted b cfg] assms(2,3,4,8) by simp
  have d: "download cfg env (held submitted ops n) =
      (Returned (createObjectURL env bytes), [Fetch (video_request_url env link)])"
    by (simp add: download_def assms(5,6,7))
  show ?thesis
    by (simp add: generateVeoVideo_def assms(1) p d)
qed

text \<open>
  Claim C6. From an idle state with a selected image and a passed key check, when
  \<open>generateDirectorPrompt\<close> returns \<open>prompt\<close>, the submission returns an operation,
  the operation held after \<open>n\<close> status requests is the first done one and has the
  locator \<open>link\<close>, and the request for \<open>link\<close> followed by \<open>&key=\<close> and the API key
  returns \<open>bytes\<close>, \<open>startGeneration\<close> returns for every budget of at least \<open>n\<close>
  iterations; the steps of the successive statuses are idle, analyzing, generating,
  completed in that order; the only request for video bytes is the one for that URL; and
  the final result pairs the object URL of \<open>bytes\<close> with exactly \<open>prompt\<close>.
\<close>

theorem startGeneration_success:
  assumes "selectedImage s = Some img"
    and "step (status s) = idle"
    and "fst (ensureApiKey app host)"
    and "generateDirectorPrompt svc env (data img) (mimeType img) = Inr prompt"
    and "generateVideos env prompt (data img) (mimeType img) = Inr submitted"
    and "\<forall>j. getVideosOperation env j = Inr (ops j)"
    and "is_done (held submitted ops n)"
    and "\<forall>j<n. \<not> is_done (held submitted ops j)"
    and "downloadLink (held submitted ops n) = Some link"
    and "link \<noteq> []"
    and "fetch_blob env
           (link @ lit ''&key='' @ (case api_key env of None \<Rightarrow> lit ''undefined'' | Some key \<Rightarrow> key)) =
         Inr bytes"
    and "n \<le> b"
  shows "\<exists>tr. startGeneration b app svc env host s = (Returned (), tr) \<and>
           remdups_adj (map (step \<circ> status) (s # tr)) = [idle, analyzing, generating, completed] \<and>
           status (last tr) = \<lparr> step = completed, message = completed_message app, progress = None \<rparr> \<and>
           result (last tr) =
             Some \<lparr> videoUrl = createObjectURL env bytes, directorPrompt = prompt \<rparr> \<and>
           (\<forall>u. Fetch u \<in> set (snd (generateVeoVideo b svc env prompt (data img) (mimeType img))) \<longleftrightarrow>
              u = link @ lit ''&key='' @
                    (case api_key env of None \<Rightarrow> lit ''undefined'' | Some key \<Rightarrow> key))"
proof -
  let ?url = "link @ lit ''&key='' @ (case api_key env of None \<Rightarrow> lit ''undefined'' | Some key \<Rightarrow> key)"
  let ?s1 = "setStatus analyzing (analyzing_message app) s"
  let ?s2 = "setStatus generating (generating_message app) ?s1"
  let ?evs = "[OnUpdate (init_message svc), GenerateVideos, OnUpdate (submitted_message svc)] @
            concat (map (iteration_events svc env) [0..<n]) @ [Fetch ?url]"
  let ?ups = "forward_updates ?evs ?s2"
  let ?s3 = "last (?s2 # ?ups)"
  let ?s4 = "?s3\<lparr> result := Some \<lparr> videoUrl = createObjectURL env bytes, directorPrompt = prompt \<rparr> \<rparr>"
  let ?s5 = "setStatus completed (completed_message app) ?s4"
  let ?tr = "?s1 # ?s2 # ?ups @ [?s4, ?s5]"
  have url: "video_request_url env link = ?url"
    by (simp add: video_request_url_def)
  have fetched: "fetch_blob env (video_request_url env link) = Inr bytes"
    using assms(11) by (simp only: url)
  have veo: "generateVeoVideo b svc env prompt (data img) (mimeType img) =
      (Returned (createObjectURL env bytes), ?evs)"
    using generateVeoVideo_returns[OF assms(5-10) fetched assms(12), of svc] by (simp only: url)
  have body: "generation_try b app svc env img s = (Returned (), ?tr)"
    by (simp add: generation_try_def assms(4) veo Let_def)
  obtain k where key: "ensureApiKey app host = (True, k)"
    using assms(3) by (cases "ensureApiKey app host") auto
  have run: "startGeneration b app svc env host s = (Returned (), ?tr)"
    by (simp add: startGeneration_def assms(1) key body)
  have steps: "map (step \<circ> status) (s # ?tr) =
      idle # analyzing # generating # replicate (length ?ups) generating @ [generating, completed]"
    using last_forward_updates_keep[where evs="?evs" and s="?s2"]
    by (simp add: map_step_forward_updates assms(2) setStatus_def del: forward_updates.simps)
  have "remdups_adj (map (step \<circ> status) (s # ?tr)) = [idle, analyzing, generating, completed]"
    by (simp only: steps remdups_adj_steps)
  moreover have "status (last ?tr) = \<lparr> step = completed, message = completed_message app, progress = None \<rparr>"
    by (simp add: setStatus_def)
  moreover have "result (last ?tr) =
      Some \<lparr> videoUrl = createObjectURL env bytes, directorPrompt = prompt \<rparr>"
    by (simp add: setStatus_def)
  moreover have "\<forall>u. Fetch u \<in> set (snd (generateVeoVideo b svc env prompt (data img) (mimeType img))) \<longleftrightarrow>
      u = ?url"
    by (auto simp: veo iteration_events_def)
  ultimately show ?thesis
    using run by blast
qed

lemma generation_try_head:
  "generation_try b app svc env img s = (r, tr) \<Longrightarrow>
     \<exists>rest. tr = setStatus analyzing (analyzing_message app) s # rest"
  by (auto simp: generation_try_def Let_def split: sum.splits prod.splits outcome.splits)

lemma generation_try_steps:
  "generation_try b app svc env img s = (r, tr) \<Longrightarrow> t \<in> set tr \<Longrightarrow>
     step (status t) = analyzing \<or> step (status t) = generating \<or> step (status t) = completed"
  using last_forward_updates_keep
  by (auto simp: generation_try_def Let_def setStatus_def
      split: sum.splits prod.splits outcome.splits dest!: forward_updates_keep)

lemma generation_try_unfinished:
  "generation_try b app svc env img s = (r, tr) \<Longrightarrow> r \<noteq> Returned () \<Longrightarrow> t \<in> set tr \<Longrightarrow>
     result t = result s \<and> step (status t) \<noteq> completed"
  by (auto simp: generation_try_def Let_def setStatus_def
      split: sum.splits prod.splits outcome.splits dest!: forward_updates_keep)

lemma generation_try_finished:
  "generation_try b app svc env img s = (Returned u, tr) \<Longrightarrow>
     \<exists>t\<in>set tr. step (status t) = completed"
  by (auto simp: generation_try_def Let_def setStatus_def
      split: sum.splits prod.splits outcome.splits)

lemma generation_try_result:
  "generation_try b app svc env img s = (r, tr) \<Longrightarrow> t \<in> set tr \<Longrightarrow>
     result t = result s \<or>
     (\<exists>url prompt. generateDirectorPrompt svc env (data img) (mimeType img) = Inr prompt \<and>
        fst (generateVeoVideo b svc env prompt (data img) (mimeType img)) = Returned url \<and>
        result t = Some \<lparr> videoUrl = url, directorPrompt = prompt \<rparr>)"
  by (auto simp: generation_try_def Let_def setStatus_def
      split: sum.splits prod.splits outcome.splits dest!: forward_updates_keep)

lemma generation_catch_cases:
  "generation_catch app host k e s = (r, tr) \<Longrightarrow>
     (r = Returned () \<and> (\<exists>msg. tr = [setStatus error msg s])) \<or> ((\<exists>e'. r = Threw e') \<and> tr = [])"
  by (auto simp: generation_catch_def split: if_splits option.splits)

lemma startGeneration_run:
  assumes "selectedImage s = Some img"
    and "ensureApiKey app host = (True, k)"
    and "generation_try b app svc env img s = (r0, tr0)"
  shows "startGeneration b app svc env host s =
           (case r0 of
              Threw e \<Rightarrow>
                (case generation_catch app host k e (last (s # tr0)) of
                   (r', tr') \<Rightarrow> (r', tr0 @ tr'))
            | Returned u \<Rightarrow> (Returned u, tr0)
            | Pending \<Rightarrow> (Pending, tr0))"
  by (simp add: startGeneration_def assms)

lemma startGeneration_idle_run:
  "selectedImage s = None \<or> \<not> fst (ensureApiKey app host) \<Longrightarrow>
     startGeneration b app svc env host s = (Returned (), [])"
  by (auto simp: startGeneration_def split: option.splits prod.splits)

lemma startGeneration_steps:
  assumes "startGeneration b app svc env host s = (r, tr)" and "t \<in> set tr"
  shows "step (status t) = analyzing \<or> step (status t) = generating \<or>
         step (status t) = completed \<or> step (status t) = error"
proof (cases "selectedImage s = None \<or> \<not> fst (ensureApiKey app host)")
  case True
  from startGeneration_idle_run[OF this] assms show ?thesis by simp
next
  case False
  then obtain img k where img: "selectedImage s = Some img" and key: "ensureApiKey app host = (True, k)"
    by (cases "ensureApiKey app host") auto
  obtain r0 tr0 where body: "generation_try b app svc env img s = (r0, tr0)"
    by (cases "generation_try b app svc env img s") auto
  show ?thesis
  proof (cases r0)
    case (Threw e)
    obtain r' tr' where c: "generation_catch app host k e (last (s # tr0)) = (r', tr')"
      by (cases "generation_catch app host k e (last (s # tr0))") auto
    from assms startGeneration_run[OF img key body] Threw c have "t \<in> set tr0 \<or> t \<in> set tr'"
      by auto
    then show ?thesis
    proof
      assume "t \<in> set tr0"
      with generation_try_steps[OF body] show ?thesis by blast
    next
      assume "t \<in> set tr'"
      with generation_catch_cases[OF c] show ?thesis by (auto simp: setStatus_def)
    qed
  next
    case (Returned u)
    with assms startGeneration_run[OF img key body] have "t \<in> set tr0" by auto
    with generation_try_steps[OF body] show ?thesis by blast
  next
    case Pending
    with assms startGeneration_run[OF img key body] have "t \<in> set tr0" by auto
    with generation_try_steps[OF body] show ?thesis by blast
  qed
qed

text \<open>
  Claim C9. No reachable state of the application has the status step \<open>polling\<close>:
  the step is idle, analyzing, generating, completed or error.
\<close>

theorem reachable_step_not_polling:
  assumes "reachable app svc s"
  shows "step (status s) \<noteq> polling \<and>
         step (status s) \<in> {idle, analyzing, generating, completed, error}"
  using assms
proof (induction rule: reachable.induct)
  case start
  then show ?case by (simp add: initial_state_def)
next
  case (upload s f)
  then show ?case by (cases f) (simp_all add: handleImageUpload_def)
next
  case (clear s)
  then show ?case by (simp add: clear_image_def)
next
  case (generate s budget env host r tr t)
  from generate.hyps(2,3) have "startGeneration budget app svc env host s = (r, tr)"
    by (auto simp: click_generate_def split: if_splits)
  from startGeneration_steps[OF this generate.hyps(3)] show ?case by auto
qed

text \<open>
  Claim C10. When the \<open>try\<close> block of \<open>startGeneration\<close> throws, every state of the
  run, the last one included, holds the result that was stored before the run; the
  \<open>catch\<close> block adds nothing or one state that sets the error status.
\<close>

theorem startGeneration_failure_keeps_result:
  assumes "selectedImage s = Some img"
    and "fst (ensureApiKey app host)"
    and "generation_try b app svc env img s = (Threw e, tr0)"
    and "startGeneration b app svc env host s = (r, tr)"
  shows "(\<forall>t\<in>set tr. result t = result s) \<and>
         result (last (s # tr)) = result s \<and>
         (tr = tr0 \<or> (\<exists>msg. tr = tr0 @ [setStatus error msg (last (s # tr0))]))"
proof -
  obtain k where key: "ensureApiKey app host = (True, k)"
    using assms(2) by (cases "ensureApiKey app host") auto
  obtain r' tr' where c: "generation_catch app host k e (last (s # tr0)) = (r', tr')"
    by (cases "generation_catch app host k e (last (s # tr0))") auto
  from startGeneration_run[OF assms(1) key assms(3)] c assms(4) have tr: "tr = tr0 @ tr'"
    by simp
  have keep0: "\<forall>t\<in>set tr0. result t = result s"
    using generation_try_unfinished[OF assms(3)] by blast
  then have keepl: "result (last (s # tr0)) = result s"
    by (cases "tr0 = []") auto
  from generation_catch_cases[OF c]
  have shape: "tr' = [] \<or> (\<exists>msg. tr' = [setStatus error msg (last (s # tr0))])"
    by blast
  then have keep': "\<forall>t\<in>set tr'. result t = result s"
    using keepl by (auto simp: setStatus_def)
  from keep0 keep' have all: "\<forall>t\<in>set tr. result t = result s"
    by (auto simp: tr)
  then have "result (last (s # tr)) = result s"
    by (cases "tr = []") auto
  with all shape show ?thesis by (auto simp: tr)
qed

lemma submission_error_not_found:
  "err_message e = Some (a @ lit ''Requested entity was not found'' @ c) \<Longrightarrow>
     submission_error e = NewError (lit ''API_KEY_EXPIRED'')"
  by (auto simp: submission_error_def js_includes_iff)

lemma key_expired_message_distinct:
  "app \<in> set app_versions \<Longrightarrow> key_expired_message app \<noteq> interrupted_message app"
  by (auto simp: app_versions_def luxury_app_def drone_app_def)

lemma generation_try_submission_fails:
  assumes "generateDirectorPrompt svc env (data img) (mimeType img) = Inr prompt"
    and "generateVideos env prompt (data img) (mimeType img) = Inl e"
  shows "\<exists>tr0. generation_try b app svc env img s = (Threw (submission_error e), tr0)"
  by (simp add: generation_try_def generateVeoVideo_def assms Let_def)

lemma startGeneration_catch_key:
  assumes "selectedImage s = Some img"
    and "ensureApiKey app host = (True, k)"
    and "generation_try b app svc env img s = (Threw e, tr0)"
    and "err_message e = Some (lit ''API_KEY_EXPIRED'')"
    and "openSelectKey host k = None"
  shows "\<exists>tr. startGeneration b app svc env host s = (Returned (), tr) \<and>
           status (last tr) = \<lparr> step = error, message = key_expired_message app, progress = None \<rparr>"
  by (simp add: startGeneration_run[OF assms(1,2,3)] generation_catch_def assms(4,5) setStatus_def)

lemma startGeneration_catch_other:
  assumes "selectedImage s = Some img"
    and "ensureApiKey app host = (True, k)"
    and "generation_try b app svc env img s = (Threw e, tr0)"
    and "err_message e \<noteq> Some (lit ''API_KEY_EXPIRED'')"
  shows "\<exists>tr. startGeneration b app svc env host s = (Returned (), tr) \<and>
           status (last tr) = \<lparr> step = error, message = interrupted_message app, progress = None \<rparr>"
  by (simp add: startGeneration_run[OF assms(1,2,3)] generation_catch_def assms(4) setStatus_def)

text \<open>
  Claim C7, amended. When the submission throws an error whose message contains
  \<open>Requested entity was not found\<close> and the key selection opened by the \<open>catch\<close> block
  resolves, \<open>startGeneration\<close> ends in the error status with the key message of the
  revision; that message differs from the interruption message; and a run whose \<open>try\<close>
  block throws an error with any message other than \<open>API_KEY_EXPIRED\<close> ends in the error
  status with the interruption message.
\<close>

theorem startGeneration_key_expired:
  assumes "app \<in> set app_versions"
  shows "(selectedImage s = Some img \<and> ensureApiKey app host = (True, k) \<and>
          generateDirectorPrompt svc env (data img) (mimeType img) = Inr prompt \<and>
          generateVideos env prompt (data img) (mimeType img) = Inl e \<and>
          err_message e = Some (a @ lit ''Requested entity was not found'' @ c) \<and>
          openSelectKey host k = None \<longrightarrow>
            (\<exists>tr. startGeneration b app svc env host s = (Returned (), tr) \<and>
               status (last tr) =
                 \<lparr> step = error, message = key_expired_message app, progress = None \<rparr>)) \<and>
         key_expired_message app \<noteq> interrupted_message app \<and>
         (selectedImage s = Some img \<and> ensureApiKey app host = (True, k) \<and>
          generation_try b app svc env img s = (Threw e', tr0) \<and>
          err_message e' \<noteq> Some (lit ''API_KEY_EXPIRED'') \<longrightarrow>
            (\<exists>tr. startGeneration b app svc env host s = (Returned (), tr) \<and>
               status (last tr) =
                 \<lparr> step = error, message = interrupted_message app, progress = None \<rparr>))"
proof (intro conjI impI)
  assume h: "selectedImage s = Some img \<and> ensureApiKey app host = (True, k) \<and>
          generateDirectorPrompt svc env (data img) (mimeType img) = Inr prompt \<and>
          generateVideos env prompt (data img) (mimeType img) = Inl e \<and>
          err_message e = Some (a @ lit ''Requested entity was not found'' @ c) \<and>
          openSelectKey host k = None"
  then have se: "submission_error e = NewError (lit ''API_KEY_EXPIRED'')"
    using submission_error_not_found by blast
  from h generation_try_submission_fails[of svc env img prompt e b app s] se
  obtain tr0 where body: "generation_try b app svc env img s = (Threw (NewError (lit ''API_KEY_EXPIRED'')), tr0)"
    by auto
  from h have "selectedImage s = Some img" "ensureApiKey app host = (True, k)" "openSelectKey host k = None"
    by simp_all
  from startGeneration_catch_key[OF this(1,2) body _ this(3)]
  show "\<exists>tr. startGeneration b app svc env host s = (Returned (), tr) \<and>
               status (last tr) =
                 \<lparr> step = error, message = key_expired_message app, progress = None \<rparr>"
    by simp
next
  show "key_expired_message app \<noteq> interrupted_message app"
    using assms by (rule key_expired_message_distinct)
next
  assume h: "selectedImage s = Some img \<and> ensureApiKey app host = (True, k) \<and>
          generation_try b app svc env img s = (Threw e', tr0) \<and>
          err_message e' \<noteq> Some (lit ''API_KEY_EXPIRED'')"
  then have "selectedImage s = Some img" "ensureApiKey app host = (True, k)"
    "generation_try b app svc env img s = (Threw e', tr0)"
    "err_message e' \<noteq> Some (lit ''API_KEY_EXPIRED'')"
    by simp_all
  then show "\<exists>tr. startGeneration b app svc env host s = (Returned (), tr) \<and>
               status (last tr) =
                 \<lparr> step = error, message = interrupted_message app, progress = None \<rparr>"
    by (rule startGeneration_catch_other)
qed

text \<open>
  Claim C8, amended. A generation started with the button from the completed or the
  error state first sets the analyzing status, which keeps the stored result; as long
  as no state of the run is completed, every state of the run holds the earlier result;
  a state of the run holds either the earlier result or the new result of a successful
  run. Loading a new image is what clears the result.
\<close>

theorem startGeneration_restart:
  assumes "step (status s) = completed \<or> step (status s) = error"
    and "selectedImage s = Some img"
    and "fst (ensureApiKey app host)"
    and "click_generate b app svc env host s = (r, tr)"
  shows "(\<exists>rest. tr = setStatus analyzing (analyzing_message app) s # rest) \<and>
         result (setStatus analyzing (analyzing_message app) s) = result s \<and>
         ((\<forall>t\<in>set tr. step (status t) \<noteq> completed) \<longrightarrow> (\<forall>t\<in>set tr. result t = result s)) \<and>
         (\<forall>t\<in>set tr. result t = result s \<or>
            (\<exists>url prompt. generateDirectorPrompt svc env (data img) (mimeType img) = Inr prompt \<and>
               fst (generateVeoVideo b svc env prompt (data img) (mimeType img)) = Returned url \<and>
               result t = Some \<lparr> videoUrl = url, directorPrompt = prompt \<rparr>)) \<and>
         result (handleImageUpload (Some f) s) = None"
proof -
  obtain k where key: "ensureApiKey app host = (True, k)"
    using assms(3) by (cases "ensureApiKey app host") auto
  obtain r0 tr0 where body: "generation_try b app svc env img s = (r0, tr0)"
    by (cases "generation_try b app svc env img s") auto
  have started: "startGeneration b app svc env host s = (r, tr)"
    using assms(1,2,4) by (auto simp: click_generate_def generate_disabled_def)
  note run = startGeneration_run[OF assms(2) key body]
  obtain rest0 where hd0: "tr0 = setStatus analyzing (analyzing_message app) s # rest0"
    using generation_try_head[OF body] by blast
  have shape: "\<exists>tr'. tr = tr0 @ tr' \<and> (\<forall>t\<in>set tr'. result t = result (last (s # tr0))) \<and>
      (r0 = Returned () \<longrightarrow> tr' = [])"
  proof (cases r0)
    case (Threw e)
    obtain r' tr' where c: "generation_catch app host k e (last (s # tr0)) = (r', tr')"
      by (cases "generation_catch app host k e (last (s # tr0))") auto
    from run Threw c started have "tr = tr0 @ tr'" by simp
    moreover from generation_catch_cases[OF c]
    have "\<forall>t\<in>set tr'. result t = result (last (s # tr0))"
      by (auto simp: setStatus_def)
    ultimately show ?thesis using Threw by blast
  next
    case (Returned u)
    with run started show ?thesis by simp
  next
    case Pending
    with run started show ?thesis by simp
  qed
  then obtain tr' where tr: "tr = tr0 @ tr'"
    and keep': "\<forall>t\<in>set tr'. result t = result (last (s # tr0))"
    and fin: "r0 = Returned () \<longrightarrow> tr' = []"
    by blast
  have P1: "\<exists>rest. tr = setStatus analyzing (analyzing_message app) s # rest"
    by (simp add: tr hd0)
  have P2: "result (setStatus analyzing (analyzing_message app) s) = result s"
    by (simp add: setStatus_def)
  have unfinished: "\<forall>t\<in>set tr. result t = result s" if "r0 \<noteq> Returned ()"
  proof -
    have k0: "\<forall>t\<in>set tr0. result t = result s"
      using generation_try_unfinished[OF body that] by blast
    then have "result (last (s # tr0)) = result s"
      by (cases "tr0 = []") auto
    with keep' k0 show ?thesis by (auto simp: tr)
  qed
  have P3: "(\<forall>t\<in>set tr. step (status t) \<noteq> completed) \<longrightarrow> (\<forall>t\<in>set tr. result t = result s)"
  proof
    assume nc: "\<forall>t\<in>set tr. step (status t) \<noteq> completed"
    have "r0 \<noteq> Returned ()"
    proof
      assume "r0 = Returned ()"
      with generation_try_finished[of b app svc env img s "()" tr0] body
      obtain t where "t \<in> set tr0" "step (status t) = completed" by blast
      with nc show False by (auto simp: tr)
    qed
    then show "\<forall>t\<in>set tr. result t = result s" by (rule unfinished)
  qed
  have P4: "\<forall>t\<in>set tr. result t = result s \<or>
            (\<exists>url prompt. generateDirectorPrompt svc env (data img) (mimeType img) = Inr prompt \<and>
               fst (generateVeoVideo b svc env prompt (data img) (mimeType img)) = Returned url \<and>
               result t = Some \<lparr> videoUrl = url, directorPrompt = prompt \<rparr>)"
  proof (cases "r0 = Returned ()")
    case True
    with fin have "tr = tr0" by (simp add: tr)
    with generation_try_result[OF body] show ?thesis by blast
  next
    case False
    from unfinished[OF this] show ?thesis by blast
  qed
  have P5: "result (handleImageUpload (Some f) s) = None"
    by (simp add: handleImageUpload_def)
  from P1 P2 P3 P4 P5 show ?thesis by blast
qed

lemma startGeneration_head:
  assumes "selectedImage s = Some img" and "fst (ensureApiKey app host)"
  shows "\<exists>r rest. startGeneration b app svc env host s =
           (r, setStatus analyzing (analyzing_message app) s # rest)"
proof -
  obtain k where key: "ensureApiKey app host = (True, k)"
    using assms(2) by (cases "ensureApiKey app host") auto
  obtain r0 tr0 where body: "generation_try b app svc env img s = (r0, tr0)"
    by (cases "generation_try b app svc env img s") auto
  from generation_try_head[OF body] obtain rest0 where
    "tr0 = setStatus analyzing (analyzing_message app) s # rest0" by blast
  then show ?thesis
    by (cases r0)
      (auto simp: startGeneration_run[OF assms(1) key body] split: prod.splits)
qed

section \<open>Runs on the sample inputs\<close>

lemma lit_append: "lit (a @ b) = lit a @ lit b"
  by (simp add: lit_def)

theorem generateDirectorPrompt_result_witness:
  "drone_service \<in> set service_versions \<and>
   generateContent sample_env (lit ''/9j/4AAQ'') (lit ''image/jpeg'') =
     Inr \<lparr> text_field = Some (lit '' Slow orbit. '') \<rparr> \<and>
   generateDirectorPrompt drone_service sample_env (lit ''/9j/4AAQ'') (lit ''image/jpeg'') =
     Inr (lit ''Slow orbit.'')"
proof -
  have h1: "drone_service \<in> set service_versions"
    by (simp add: service_versions_def)
  have h2: "generateContent sample_env (lit ''/9j/4AAQ'') (lit ''image/jpeg'') =
      Inr \<lparr> text_field = Some (lit '' Slow orbit. '') \<rparr>"
    by (simp add: sample_env_def)
  have t: "trim (lit '' Slow orbit. '') = lit ''Slow orbit.''"
    by (simp add: trim_def lit_def js_whitespace_def)
  from generateDirectorPrompt_result[OF h1 h2] t
  have "generateDirectorPrompt drone_service sample_env (lit ''/9j/4AAQ'') (lit ''image/jpeg'') =
      Inr (lit ''Slow orbit.'')"
    by auto
  with h1 h2 show ?thesis by blast
qed

theorem generateVeoVideo_submission_error_witness:
  "generateVideos (sample_env\<lparr> generateVideos := \<lambda>prompt image mime. Inl not_found_error \<rparr>)
     (lit ''Slow orbit.'') (lit ''/9j/4AAQ'') (lit ''image/jpeg'') = Inl not_found_error \<and>
   fst (generateVeoVideo 3 drone_service
          (sample_env\<lparr> generateVideos := \<lambda>prompt image mime. Inl not_found_error \<rparr>)
          (lit ''Slow orbit.'') (lit ''/9j/4AAQ'') (lit ''image/jpeg'')) =
     Threw (NewError (lit ''API_KEY_EXPIRED''))"
proof -
  let ?env = "sample_env\<lparr> generateVideos := \<lambda>prompt image mime. Inl not_found_error \<rparr>"
  have h: "generateVideos ?env (lit ''Slow orbit.'') (lit ''/9j/4AAQ'') (lit ''image/jpeg'') =
      Inl not_found_error"
    by simp
  have "err_message not_found_error =
      Some (lit ''404: '' @ lit ''Requested entity was not found'' @ lit ''.'')"
    by (simp add: not_found_error_def lit_def)
  then have ex: "\<exists>m a b. err_message not_found_error = Some m \<and>
      m = a @ lit ''Requested entity was not found'' @ b"
    by blast
  from generateVeoVideo_submission_error[OF h, of 3 drone_service] ex
  have "fst (generateVeoVideo 3 drone_service ?env
          (lit ''Slow orbit.'') (lit ''/9j/4AAQ'') (lit ''image/jpeg'')) =
     Threw (NewError (lit ''API_KEY_EXPIRED''))"
    by simp
  with h show ?thesis by blast
qed

lemma sample_ops_done [simp]:
  "\<not> is_done running_operation" "is_done finished_operation" "is_done unlocated_operation"
  by (simp_all add: is_done_def running_operation_def finished_operation_def unlocated_operation_def)

theorem poll_loop_callback_and_exit_witness:
  "(\<forall>j. getVideosOperation sample_env j = Inr (sample_ops j)) \<and>
   is_done (sample_ops 1) \<and>
   GetVideosOperation 2 \<notin> set (snd (poll_loop 5 drone_service sample_env 0 running_operation))"
proof -
  have h1: "\<forall>j. getVideosOperation sample_env j = Inr (sample_ops j)"
    by (simp add: sample_env_def)
  have h2: "poll_loop 5 drone_service sample_env 0 running_operation =
      (fst (poll_loop 5 drone_service sample_env 0 running_operation),
       snd (poll_loop 5 drone_service sample_env 0 running_operation))"
    by simp
  have d: "is_done (sample_ops 1)"
    by (simp add: sample_ops_def)
  from poll_loop_callback_and_exit[OF h1 h2] d
  have "GetVideosOperation 2 \<notin> set (snd (poll_loop 5 drone_service sample_env 0 running_operation))"
    by (metis one_less_numeral_iff semiring_norm(76))
  with h1 d show ?thesis by blast
qed

theorem poll_loop_terminates_iff_witness:
  "(\<forall>j. getVideosOperation sample_env j = Inr (sample_ops j)) \<and>
   poll_loop 2 luxury_service sample_env 0 running_operation =
     (Returned finished_operation,
      [Sleep 10000, GetVideosOperation 0, OnUpdate (lit ''Eliminating drone artifacts...''),
       Sleep 10000, GetVideosOperation 1, OnUpdate (lit ''Eliminating drone artifacts...'')]) \<and>
   fst (poll_loop 1 luxury_service sample_env 0 running_operation) = Pending"
proof -
  have h1: "\<forall>j. getVideosOperation sample_env j = Inr (sample_ops j)"
    by (simp add: sample_env_def)
  have first: "is_done (held running_operation sample_ops 2) \<and>
      (\<forall>j<2. \<not> is_done (held running_operation sample_ops j))"
    by (auto simp: sample_ops_def less_Suc_eq numeral_2_eq_2)
  have evs: "concat (map (iteration_events luxury_service sample_env) [0..<2]) =
      [Sleep 10000, GetVideosOperation 0, OnUpdate (lit ''Eliminating drone artifacts...''),
       Sleep 10000, GetVideosOperation 1, OnUpdate (lit ''Eliminating drone artifacts...'')]"
    by (simp add: iteration_events_def luxury_service_def sample_env_def pick_message_def
        upt_rec numeral_2_eq_2)
  have fin: "held running_operation sample_ops 2 = finished_operation"
    by (simp add: sample_ops_def numeral_2_eq_2)
  from poll_loop_terminates_iff[OF h1, of luxury_service running_operation] first
  have "(\<forall>b\<ge>2. poll_loop b luxury_service sample_env 0 running_operation =
           (Returned (held running_operation sample_ops 2),
            concat (map (iteration_events luxury_service sample_env) [0..<2]))) \<and>
        (\<forall>b<2. fst (poll_loop b luxury_service sample_env 0 running_operation) = Pending)"
    by blast
  moreover have "(2::nat) \<ge> 2" "(1::nat) < 2"
    by simp_all
  ultimately have "poll_loop 2 luxury_service sample_env 0 running_operation =
           (Returned (held running_operation sample_ops 2),
            concat (map (iteration_events luxury_service sample_env) [0..<2]))"
    and "fst (poll_loop 1 luxury_service sample_env 0 running_operation) = Pending"
    by blast+
  with h1 evs fin show ?thesis by (simp only: simp_thms)
qed

lemma sample_prompt:
  "generateDirectorPrompt svc sample_env imageBuffer mime = Inr (lit ''Slow orbit.'')"
  by (simp add: generateDirectorPrompt_def sample_env_def trim_def lit_def js_whitespace_def)

lemma sample_submit: "generateVideos sample_env prompt imageBuffer mime = Inr running_operation"
  by (simp add: sample_env_def)

lemma sample_key: "ensureApiKey luxury_app sample_host = (True, 0)"
  by (simp add: luxury_app_def ensureApiKey_luxury_def sample_host_def)

text \<open>
  Claim C8 as stated fails: a generation started from a completed state that is still
  waiting after one status request has the generating status and still holds the earlier
  result.
\<close>

theorem startGeneration_restart_counterexample:
  "step (status completed_state) = completed \<and>
   result completed_state = Some earlier_result \<and>
   fst (startGeneration 1 luxury_app luxury_service sample_env sample_host completed_state) = Pending \<and>
   step (status (last (snd (startGeneration 1 luxury_app luxury_service sample_env sample_host
     completed_state)))) = generating \<and>
   result (last (snd (startGeneration 1 luxury_app luxury_service sample_env sample_host
     completed_state))) = Some earlier_result"
proof -
  have p: "poll_loop (Suc 0) luxury_service sample_env 0 running_operation =
      (Pending, iteration_events luxury_service sample_env 0)"
    by (simp add: sample_env_def sample_ops_def)
  have veo: "generateVeoVideo (Suc 0) luxury_service sample_env (lit ''Slow orbit.'')
      (data sample_image) (mimeType sample_image) =
      (Pending, [OnUpdate (init_message luxury_service), GenerateVideos,
                 OnUpdate (submitted_message luxury_service)] @
                iteration_events luxury_service sample_env 0)"
    by (simp only: generateVeoVideo_def sample_submit sum.case p) simp
  have img: "selectedImage completed_state = Some sample_image"
    by (simp add: completed_state_def)
  show ?thesis
    by (simp add: startGeneration_def img sample_key generation_try_def sample_prompt veo
        iteration_events_def setStatus_def on_update_def Let_def)
      (simp add: completed_state_def)
qed

text \<open>
  Claim C7 as stated fails: when the text model call fails with an error whose message
  is \<open>API_KEY_EXPIRED\<close>, the run ends with the key message, not with the interruption
  message.
\<close>

theorem startGeneration_key_expired_counterexample:
  "generateContent failing_text_env (data sample_image) (mimeType sample_image) = Inl key_named_error \<and>
   status (last (snd (startGeneration 0 luxury_app luxury_service failing_text_env sample_host
     sample_state))) =
     \<lparr> step = error, message = key_expired_message luxury_app, progress = None \<rparr> \<and>
   key_expired_message luxury_app \<noteq> interrupted_message luxury_app"
proof -
  have img: "selectedImage sample_state = Some sample_image"
    by (simp add: sample_state_def)
  have g: "generateContent failing_text_env (data sample_image) (mimeType sample_image) = Inl key_named_error"
    by (simp add: failing_text_env_def)
  have k: "openSelectKey sample_host 0 = None"
    by (simp add: sample_host_def)
  have d: "key_expired_message luxury_app \<noteq> interrupted_message luxury_app"
    by (simp add: luxury_app_def)
  show ?thesis
    by (simp add: g d startGeneration_def img sample_key generation_try_def generateDirectorPrompt_def
        generation_catch_def key_named_error_def k setStatus_def Let_def)
qed

lemma sample_state_image: "selectedImage sample_state = Some sample_image"
  by (simp add: sample_state_def)

lemma completed_state_image: "selectedImage completed_state = Some sample_image"
  by (simp add: completed_state_def)

text \<open>
  Claim C4 as stated fails for the revision in \<open>services/geminiService.ts\<close>: for an
  operation that is done and has no video, the error it throws has the message
  \<open>Video generation failed to return a URI.\<close>, which does not contain
  \<open>capture failed\<close>.
\<close>

theorem generateVeoVideo_no_locator_counterexample:
  "generateVideos unlocated_env (lit ''Slow orbit.'') (lit ''/9j/4AAQ'') (lit ''image/jpeg'') =
     Inr unlocated_operation \<and>
   is_done unlocated_operation \<and>
   downloadLink unlocated_operation = None \<and>
   fst (generateVeoVideo 0 drone_service unlocated_env
          (lit ''Slow orbit.'') (lit ''/9j/4AAQ'') (lit ''image/jpeg'')) =
     Threw (NewError (lit ''Video generation failed to return a URI.'')) \<and>
   \<not> js_includes (lit ''Video generation failed to return a URI.'') (lit ''capture failed'')"
proof -
  have h1: "generateVideos unlocated_env (lit ''Slow orbit.'') (lit ''/9j/4AAQ'') (lit ''image/jpeg'') =
     Inr unlocated_operation"
    by (simp add: unlocated_env_def)
  have h3: "downloadLink unlocated_operation = None"
    by (simp add: downloadLink_def unlocated_operation_def)
  have g: "fst (generateVeoVideo 0 drone_service unlocated_env
          (lit ''Slow orbit.'') (lit ''/9j/4AAQ'') (lit ''image/jpeg'')) =
     Threw (NewError (lit ''Video generation failed to return a URI.''))"
    by (simp add: generateVeoVideo_def h1 download_def h3 drone_service_def)
  have n: "\<not> js_includes (lit ''Video generation failed to return a URI.'') (lit ''capture failed'')"
    by (simp add: lit_def)
  from h1 h3 g n show ?thesis by simp
qed

theorem generateVeoVideo_no_locator_witness:
  "generateVideos unlocated_env (lit ''Slow orbit.'') (lit ''/9j/4AAQ'') (lit ''image/jpeg'') =
     Inr unlocated_operation \<and>
   poll_loop 0 luxury_service unlocated_env 0 unlocated_operation = (Returned unlocated_operation, []) \<and>
   downloadLink unlocated_operation = None \<and>
   fst (generateVeoVideo 0 luxury_service unlocated_env
          (lit ''Slow orbit.'') (lit ''/9j/4AAQ'') (lit ''image/jpeg'')) =
     Threw (NewError (lit ''Aerial capture failed.''))"
proof -
  have h1: "generateVideos unlocated_env (lit ''Slow orbit.'') (lit ''/9j/4AAQ'') (lit ''image/jpeg'') =
     Inr unlocated_operation"
    by (simp add: unlocated_env_def)
  have h2: "poll_loop 0 luxury_service unlocated_env 0 unlocated_operation =
      (Returned unlocated_operation, [])"
    by simp
  have h3: "downloadLink unlocated_operation = None"
    by (simp add: downloadLink_def unlocated_operation_def)
  then have h3': "downloadLink unlocated_operation = None \<or> downloadLink unlocated_operation = Some []"
    by simp
  from generateVeoVideo_no_locator[OF h1 h2 h3']
  have "fst (generateVeoVideo 0 luxury_service unlocated_env
          (lit ''Slow orbit.'') (lit ''/9j/4AAQ'') (lit ''image/jpeg'')) =
     Threw (NewError (no_uri_message luxury_service))"
    and "no_uri_message luxury_service = lit ''Aerial capture failed.''"
    by simp_all
  with h1 h2 h3 show ?thesis by simp
qed

theorem startGeneration_success_witness:
  "selectedImage sample_state = Some sample_image \<and>
   step (status sample_state) = idle \<and>
   fst (ensureApiKey luxury_app sample_host) \<and>
   api_key sample_env = Some (lit ''KEY'') \<and>
   fetch_blob sample_env (lit ''https://videos.example/v1?alt=media&key=KEY'') = Inr [0x00, 0x01] \<and>
   fst (startGeneration 2 luxury_app luxury_service sample_env sample_host sample_state) = Returned () \<and>
   remdups_adj (map (step \<circ> status)
     (sample_state # snd (startGeneration 2 luxury_app luxury_service sample_env sample_host sample_state))) =
     [idle, analyzing, generating, completed] \<and>
   result (last (snd (startGeneration 2 luxury_app luxury_service sample_env sample_host sample_state))) =
     Some \<lparr> videoUrl = lit ''blob:video'', directorPrompt = lit ''Slow orbit.'' \<rparr> \<and>
   Fetch (lit ''https://videos.example/v1?alt=media&key=KEY'') \<in>
     set (snd (generateVeoVideo 2 luxury_service sample_env (lit ''Slow orbit.'')
       (data sample_image) (mimeType sample_image))) \<and>
   Fetch (lit ''https://videos.example/v1?alt=media'') \<notin>
     set (snd (generateVeoVideo 2 luxury_service sample_env (lit ''Slow orbit.'')
       (data sample_image) (mimeType sample_image)))"
proof -
  have h2: "step (status sample_state) = idle"
    by (simp add: sample_state_def initial_state_def)
  have h3: "fst (ensureApiKey luxury_app sample_host)"
    by (simp add: sample_key)
  have h6: "\<forall>j. getVideosOperation sample_env j = Inr (sample_ops j)"
    by (simp add: sample_env_def)
  have h7: "is_done (held running_operation sample_ops 2)"
    by (simp add: sample_ops_def numeral_2_eq_2)
  have h8: "\<forall>j<2. \<not> is_done (held running_operation sample_ops j)"
    by (auto simp: sample_ops_def less_Suc_eq numeral_2_eq_2)
  have h9: "downloadLink (held running_operation sample_ops 2) =
      Some (lit ''https://videos.example/v1?alt=media'')"
    by (simp add: sample_ops_def numeral_2_eq_2 downloadLink_def finished_operation_def)
  have h10: "lit ''https://videos.example/v1?alt=media'' \<noteq> []"
    by simp
  have key: "api_key sample_env = Some (lit ''KEY'')"
    by (simp add: sample_env_def)
  have u: "lit ''https://videos.example/v1?alt=media'' @ lit ''&key='' @
      (case api_key sample_env of None \<Rightarrow> lit ''undefined'' | Some key \<Rightarrow> key) =
      lit ''https://videos.example/v1?alt=media&key=KEY''"
    by (simp add: key lit_append[symmetric])
  have f: "fetch_blob sample_env (lit ''https://videos.example/v1?alt=media&key=KEY'') = Inr [0x00, 0x01]"
    by (simp add: sample_env_def)
  have h11: "fetch_blob sample_env
      (lit ''https://videos.example/v1?alt=media'' @ lit ''&key='' @
        (case api_key sample_env of None \<Rightarrow> lit ''undefined'' | Some key \<Rightarrow> key)) = Inr [0x00, 0x01]"
    by (simp only: u f)
  have url: "createObjectURL sample_env [0x00, 0x01] = lit ''blob:video''"
    by (simp add: sample_env_def)
  have ne: "lit ''https://videos.example/v1?alt=media'' \<noteq>
      lit ''https://videos.example/v1?alt=media&key=KEY''"
    by simp
  from startGeneration_success[OF sample_state_image h2 h3 sample_prompt sample_submit h6 h7 h8 h9 h10 h11 order_refl,
      of luxury_service]
  obtain tr where "startGeneration 2 luxury_app luxury_service sample_env sample_host sample_state =
      (Returned (), tr)"
    "remdups_adj (map (step \<circ> status) (sample_state # tr)) = [idle, analyzing, generating, completed]"
    "result (last tr) =
       Some \<lparr> videoUrl = createObjectURL sample_env [0x00, 0x01], directorPrompt = lit ''Slow orbit.'' \<rparr>"
    "\<forall>u. Fetch u \<in> set (snd (generateVeoVideo 2 luxury_service sample_env (lit ''Slow orbit.'')
       (data sample_image) (mimeType sample_image))) \<longleftrightarrow>
       u = lit ''https://videos.example/v1?alt=media&key=KEY''"
    unfolding u by blast
  with sample_state_image h2 h3 key f url ne show ?thesis by simp
qed

theorem startGeneration_key_expired_witness:
  "luxury_app \<in> set app_versions \<and>
   generateVideos failing_submit_env (lit ''Slow orbit.'') (data sample_image) (mimeType sample_image) =
     Inl not_found_error \<and>
   status (last (snd (startGeneration 0 luxury_app luxury_service failing_submit_env sample_host
     sample_state))) =
     \<lparr> step = error, message = lit ''Select your paid API key and retry.'', progress = None \<rparr>"
proof -
  have h0: "luxury_app \<in> set app_versions"
    by (simp add: app_versions_def)
  have h1: "generateDirectorPrompt luxury_service failing_submit_env (data sample_image)
      (mimeType sample_image) = Inr (lit ''Slow orbit.'')"
    by (simp add: generateDirectorPrompt_def failing_submit_env_def sample_env_def trim_def lit_def
        js_whitespace_def)
  have h2: "generateVideos failing_submit_env (lit ''Slow orbit.'') (data sample_image)
      (mimeType sample_image) = Inl not_found_error"
    by (simp add: failing_submit_env_def)
  have h3: "err_message not_found_error =
      Some (lit ''404: '' @ lit ''Requested entity was not found'' @ lit ''.'')"
    by (simp add: not_found_error_def lit_def)
  have h4: "openSelectKey sample_host 0 = None"
    by (simp add: sample_host_def)
  have m: "key_expired_message luxury_app = lit ''Select your paid API key and retry.''"
    by (simp add: luxury_app_def)
  from startGeneration_key_expired[OF h0, of sample_state sample_image sample_host 0 luxury_service
      failing_submit_env "lit ''Slow orbit.''" not_found_error "lit ''404: ''" "lit ''.''" 0]
    sample_state_image sample_key h1 h2 h3 h4
  obtain tr where "startGeneration 0 luxury_app luxury_service failing_submit_env sample_host sample_state =
      (Returned (), tr)"
    "status (last tr) = \<lparr> step = error, message = key_expired_message luxury_app, progress = None \<rparr>"
    by blast
  with h0 h2 m show ?thesis by simp
qed

theorem startGeneration_restart_witness:
  "step (status completed_state) = completed \<and>
   selectedImage completed_state = Some sample_image \<and>
   fst (ensureApiKey luxury_app sample_host) \<and>
   hd (snd (click_generate 1 luxury_app luxury_service sample_env sample_host completed_state)) =
     setStatus analyzing (analyzing_message luxury_app) completed_state"
proof -
  have h1: "step (status completed_state) = completed"
    by (simp add: completed_state_def)
  then have h1': "step (status completed_state) = completed \<or> step (status completed_state) = error"
    by simp
  have h3: "fst (ensureApiKey luxury_app sample_host)"
    by (simp add: sample_key)
  have h4: "click_generate 1 luxury_app luxury_service sample_env sample_host completed_state =
      (fst (click_generate 1 luxury_app luxury_service sample_env sample_host completed_state),
       snd (click_generate 1 luxury_app luxury_service sample_env sample_host completed_state))"
    by simp
  from startGeneration_restart[OF h1' completed_state_image h3 h4]
  obtain rest where "snd (click_generate 1 luxury_app luxury_service sample_env sample_host completed_state) =
      setStatus analyzing (analyzing_message luxury_app) completed_state # rest"
    by blast
  with h1 completed_state_image h3 show ?thesis by simp
qed


theorem reachable_step_not_polling_witness:
  "reachable luxury_app luxury_service
     (setStatus analyzing (analyzing_message luxury_app) sample_state) \<and>
   step (status (setStatus analyzing (analyzing_message luxury_app) sample_state)) \<noteq> polling"
proof -
  have up: "sample_state =
      handleImageUpload (Some \<lparr> base64Data = lit ''/9j/4AAQ'', file_type = lit ''image/jpeg'' \<rparr>)
        initial_state"
    by (simp add: sample_state_def handleImageUpload_def sample_image_def initial_state_def)
  have r0: "reachable luxury_app luxury_service sample_state"
    unfolding up by (rule reachable.upload[OF reachable.start])
  have en: "\<not> generate_disabled sample_state"
    by (simp add: generate_disabled_def sample_state_def initial_state_def)
  from startGeneration_head[OF sample_state_image, of luxury_app sample_host 0 luxury_service sample_env]
  obtain r rest where "startGeneration 0 luxury_app luxury_service sample_env sample_host sample_state =
      (r, setStatus analyzing (analyzing_message luxury_app) sample_state # rest)"
    by (auto simp: sample_key)
  with en have run: "click_generate 0 luxury_app luxury_service sample_env sample_host sample_state =
      (r, setStatus analyzing (analyzing_message luxury_app) sample_state # rest)"
    by (simp add: click_generate_def)
  have r1: "reachable luxury_app luxury_service
      (setStatus analyzing (analyzing_message luxury_app) sample_state)"
    by (rule reachable.generate[OF r0 run]) simp
  from reachable_step_not_polling[OF r1] r1 show ?thesis by blast
qed

theorem startGeneration_failure_keeps_result_witness:
  "selectedImage completed_state = Some sample_image \<and>
   fst (ensureApiKey luxury_app sample_host) \<and>
   fst (generation_try 0 luxury_app luxury_service failing_submit_env sample_image completed_state) =
     Threw (NewError (lit ''API_KEY_EXPIRED'')) \<and>
   result (last (completed_state #
     snd (startGeneration 0 luxury_app luxury_service failing_submit_env sample_host completed_state))) =
     Some earlier_result"
proof -
  have h2: "fst (ensureApiKey luxury_app sample_host)"
    by (simp add: sample_key)
  have p: "generateDirectorPrompt luxury_service failing_submit_env (data sample_image)
      (mimeType sample_image) = Inr (lit ''Slow orbit.'')"
    by (simp add: generateDirectorPrompt_def failing_submit_env_def sample_env_def trim_def lit_def
        js_whitespace_def)
  have g: "generateVideos failing_submit_env (lit ''Slow orbit.'') (data sample_image)
      (mimeType sample_image) = Inl not_found_error"
    by (simp add: failing_submit_env_def)
  have "err_message not_found_error =
      Some (lit ''404: '' @ lit ''Requested entity was not found'' @ lit ''.'')"
    by (simp add: not_found_error_def lit_def)
  then have se: "submission_error not_found_error = NewError (lit ''API_KEY_EXPIRED'')"
    by (rule submission_error_not_found)
  from generation_try_submission_fails[OF p g, of 0 luxury_app completed_state] se
  obtain tr0 where h3: "generation_try 0 luxury_app luxury_service failing_submit_env sample_image
      completed_state = (Threw (NewError (lit ''API_KEY_EXPIRED'')), tr0)"
    by auto
  have h4: "startGeneration 0 luxury_app luxury_service failing_submit_env sample_host completed_state =
      (fst (startGeneration 0 luxury_app luxury_service failing_submit_env sample_host completed_state),
       snd (startGeneration 0 luxury_app luxury_service failing_submit_env sample_host completed_state))"
    by simp
  from startGeneration_failure_keeps_result[OF completed_state_image h2 h3 h4]
  have "result (last (completed_state #
     snd (startGeneration 0 luxury_app luxury_service failing_submit_env sample_host completed_state))) =
     result completed_state"
    by blast
  moreover have "result completed_state = Some earlier_result"
    by (simp add: completed_state_def)
  ultimately show ?thesis
    using completed_state_image h2 h3 by simp
qed

end
